theory Spec2Isabelle
  imports Complex_Main "HOL-Library.Sublist" "HOL-Library.Multiset"
begin

section \<open>Exceptions\<close>

text \<open>
  Every \<^verbatim>\<open>raise\<close> of the Python source, and every exception of the libraries it
  calls, is a value of \<open>error\<close>; a call that may raise returns \<open>error + 'a\<close> with
  \<open>Inl\<close> for the exception. Exceptions are told apart by class only: the message
  strings that the wrappers build with f-strings are not modelled.
\<close>

datatype error =
    FileNotFoundError        \<comment> \<open>\<^verbatim>\<open>open\<close> on a path that does not exist\<close>
  | CouldntDecodeError       \<comment> \<open>the file exists but holds no decodable audio\<close>
  | AttributeError           \<comment> \<open>attribute lookup on an object that lacks it\<close>
  | TypeError                \<comment> \<open>operand of the wrong type\<close>
  | ValueError               \<comment> \<open>a channel conversion the library does not support\<close>
  | TooManyMissingFrames     \<comment> \<open>raised by slicing an audio segment\<close>
  | OSError                  \<comment> \<open>\<^verbatim>\<open>os.listdir\<close> on a folder that cannot be read\<close>
  | ModelError               \<comment> \<open>any failure inside the embedding model\<close>
  | Exception                \<comment> \<open>the generic \<^verbatim>\<open>Exception(...)\<close> the wrappers raise\<close>

section \<open>The audio-segment interface used by \<^verbatim>\<open>soundhub/audio.py\<close>\<close>

text \<open>
  \<^verbatim>\<open>audio.py\<close> works on \<^verbatim>\<open>pydub.AudioSegment\<close> objects. A segment has a format
  (frame rate in frames per second, number of channels, sample width in bytes) and
  its audio data, modelled as the list of its frames, each frame the list of its
  samples, one per channel.
\<close>

record AudioSegment =
  frame_rate :: nat
  channels :: nat
  sample_width :: nat
  frames :: "int list list"

definition frame_count :: "AudioSegment \<Rightarrow> nat" where
  "frame_count a = length (frames a)"

text \<open>
  The library measures positions and lengths in whole milliseconds and converts
  between milliseconds and frames with Python floats:
  \<^verbatim>\<open>len(seg)\<close> is \<^verbatim>\<open>round(1000 * (frame_count / frame_rate))\<close> and a position of
  \<^verbatim>\<open>ms\<close> milliseconds is frame \<^verbatim>\<open>int(ms * (frame_rate / 1000.0))\<close>. The model
  computes both quotients exactly: \<open>py_round p q\<close> is \<open>p / q\<close> rounded to the nearest
  integer, a tie going to the even one as \<^verbatim>\<open>round\<close> does, and \<open>py_int p q\<close> is
  \<open>p / q\<close> truncated towards zero as \<^verbatim>\<open>int\<close> does. Floating point can give a
  different result only where the exact quotient is half-way between two integers
  (for \<^verbatim>\<open>round\<close>), or is an integer that the float product falls short of (for
  \<^verbatim>\<open>int\<close>, possible when \<^verbatim>\<open>frame_rate / 1000.0\<close> is not exact in binary). The
  general theorems below are stated in terms of \<open>len\<close> and \<open>parse_position\<close>
  themselves or for quotients that are integers under \<^verbatim>\<open>round\<close>; the evaluations
  use the frame rates 1000 and 8000, where the factor is exact, and 1100 at a position
  whose quotient, 9.9, is not an integer, and none of their lengths is at a tie.
\<close>

definition py_round :: "int \<Rightarrow> int \<Rightarrow> int" where
  "py_round p q =
     (let f = p div q; r = p mod q
      in if 2 * r < q then f
         else if q < 2 * r then f + 1
         else if even f then f else f + 1)"

definition py_int :: "int \<Rightarrow> int \<Rightarrow> int" where
  "py_int p q = (if 0 \<le> p then p div q else - ((- p) div q))"

definition len :: "AudioSegment \<Rightarrow> int" where
  "len a = py_round (1000 * int (frame_count a)) (int (frame_rate a))"

text \<open>
  The file system maps a path to what is stored there: an audio file that decodes
  to a segment, or some other file. Output locations are taken to be writable.
\<close>

datatype stored = WavFile AudioSegment | OtherFile

type_synonym filesystem = "string \<rightharpoonup> stored"

text \<open>\<^verbatim>\<open>AudioSegment.from_file(path)\<close>\<close>

definition from_file :: "filesystem \<Rightarrow> string \<Rightarrow> error + AudioSegment" where
  "from_file fs path =
     (case fs path of
        None \<Rightarrow> Inl FileNotFoundError
      | Some OtherFile \<Rightarrow> Inl CouldntDecodeError
      | Some (WavFile a) \<Rightarrow> Inr a)"

text \<open>Python's \<^verbatim>\<open>xs[i:j]\<close> on a sequence: negative indices count from the end,
  and both ends are clamped to the sequence.\<close>

definition py_slice :: "'a list \<Rightarrow> int \<Rightarrow> int \<Rightarrow> 'a list" where
  "py_slice xs i j =
     (let n = int (length xs);
          i' = (if i < 0 then max (i + n) 0 else min i n);
          j' = (if j < 0 then max (j + n) 0 else min j n)
      in take (nat (j' - i')) (drop (nat i') xs))"

text \<open>
  \<^verbatim>\<open>AudioSegment._parse_position\<close>: a negative position counts back from the length
  in milliseconds; the position in milliseconds is then converted to a frame index.
\<close>

definition parse_position :: "AudioSegment \<Rightarrow> int \<Rightarrow> int" where
  "parse_position a val =
     (let val' = (if val < 0 then len a - abs val else val)
      in py_int (val' * int (frame_rate a)) 1000)"

text \<open>
  \<^verbatim>\<open>AudioSegment.__getitem__\<close> with a slice \<^verbatim>\<open>audio[start:end]\<close> whose two ends are
  integers: both ends are clamped to the length in milliseconds and converted to
  frame indices, the frames are sliced, and a result with fewer frames than
  \<^verbatim>\<open>end - start\<close> spans is padded with silent frames when no more than the frames
  of 2 ms are missing and refused otherwise. A silent frame is the first frame of the
  slice with its samples set to zero. The result keeps the format of the segment.
\<close>

definition getitem_slice :: "AudioSegment \<Rightarrow> int \<Rightarrow> int \<Rightarrow> error + AudioSegment" where
  "getitem_slice a start end =
     (let start1 = min start (len a);
          end1 = min end (len a);
          s = parse_position a start1;
          e = parse_position a end1;
          data = py_slice (frames a) s e;
          expected_length = e - s;
          missing_frames = expected_length - int (length data)
      in if missing_frames \<noteq> 0 then
           (if 2 * int (frame_rate a) < 1000 * missing_frames then Inl TooManyMissingFrames
            else Inr (a\<lparr>frames :=
                   data @ concat (replicate (nat missing_frames)
                                    (map (map (\<lambda>_. 0)) (take 1 data)))\<rparr>))
         else Inr (a\<lparr>frames := data\<rparr>))"

text \<open>
  Joining two segments first brings both to a common format
  (\<^verbatim>\<open>AudioSegment._sync\<close>): the larger channel count, frame rate and sample width of
  the two. Each of \<^verbatim>\<open>set_channels\<close>, \<^verbatim>\<open>set_frame_rate\<close> and \<^verbatim>\<open>set_sample_width\<close>
  returns the segment itself when it already has the value asked for.
  Resampling and sample-width conversion are done by the C routines
  \<^verbatim>\<open>audioop.ratecv\<close> and \<^verbatim>\<open>audioop.lin2lin\<close>, which are taken as parameters.
\<close>

record audioop =
  ratecv :: "int list list \<Rightarrow> nat \<Rightarrow> nat \<Rightarrow> nat \<Rightarrow> nat \<Rightarrow> int list list"
  lin2lin :: "int list list \<Rightarrow> nat \<Rightarrow> nat \<Rightarrow> int list list"

text \<open>
  \<^verbatim>\<open>set_channels\<close>: mono to stereo or to more channels repeats each sample in every
  channel; stereo to mono averages the two samples; more channels to mono adds the
  samples, each divided by the channel count; any other conversion raises
  \<^verbatim>\<open>ValueError\<close>.
\<close>

definition set_channels :: "AudioSegment \<Rightarrow> nat \<Rightarrow> error + AudioSegment" where
  "set_channels seg c =
     (if c = channels seg then Inr seg
      else if c = 2 \<and> channels seg = 1 then
        Inr (seg\<lparr>channels := 2, frames := map (\<lambda>fr. concat (map (replicate 2) fr)) (frames seg)\<rparr>)
      else if c = 1 \<and> channels seg = 2 then
        Inr (seg\<lparr>channels := 1, frames := map (\<lambda>fr. [sum_list fr div 2]) (frames seg)\<rparr>)
      else if c = 1 then
        Inr (seg\<lparr>channels := 1,
                 frames := map (\<lambda>fr. [sum_list (map (\<lambda>s. s div int (channels seg)) fr)])
                             (frames seg)\<rparr>)
      else if channels seg = 1 then
        Inr (seg\<lparr>channels := c, frames := map (\<lambda>fr. concat (map (replicate c) fr)) (frames seg)\<rparr>)
      else Inl ValueError)"

definition set_frame_rate :: "audioop \<Rightarrow> AudioSegment \<Rightarrow> nat \<Rightarrow> AudioSegment" where
  "set_frame_rate ops seg r =
     (if r = frame_rate seg then seg
      else if frames seg \<noteq> [] then
        seg\<lparr>frame_rate := r,
            frames := ratecv ops (frames seg) (sample_width seg) (channels seg) (frame_rate seg) r\<rparr>
      else seg\<lparr>frame_rate := r\<rparr>)"

definition set_sample_width :: "audioop \<Rightarrow> AudioSegment \<Rightarrow> nat \<Rightarrow> AudioSegment" where
  "set_sample_width ops seg w =
     (if w = sample_width seg then seg
      else seg\<lparr>sample_width := w, frames := lin2lin ops (frames seg) (sample_width seg) w\<rparr>)"

text \<open>\<^verbatim>\<open>seg.set_channels(c).set_frame_rate(r).set_sample_width(w)\<close> for one segment,
  and \<^verbatim>\<open>_sync\<close> for two.\<close>

definition sync_one :: "audioop \<Rightarrow> nat \<Rightarrow> nat \<Rightarrow> nat \<Rightarrow> AudioSegment \<Rightarrow> error + AudioSegment" where
  "sync_one ops c r w seg =
     (case set_channels seg c of
        Inl e \<Rightarrow> Inl e
      | Inr seg' \<Rightarrow> Inr (set_sample_width ops (set_frame_rate ops seg' r) w))"

definition sync :: "audioop \<Rightarrow> AudioSegment \<Rightarrow> AudioSegment \<Rightarrow> error + AudioSegment \<times> AudioSegment" where
  "sync ops seg1 seg2 =
     (let c = max (channels seg1) (channels seg2);
          r = max (frame_rate seg1) (frame_rate seg2);
          w = max (sample_width seg1) (sample_width seg2)
      in case sync_one ops c r w seg1 of
           Inl e \<Rightarrow> Inl e
         | Inr s1 \<Rightarrow> (case sync_one ops c r w seg2 of
                         Inl e \<Rightarrow> Inl e
                       | Inr s2 \<Rightarrow> Inr (s1, s2)))"

text \<open>\<^verbatim>\<open>self.append(seg, crossfade=0)\<close>: the frames of the synced left operand
  followed by the frames of the synced right operand, in the common format.\<close>

definition append_segment :: "audioop \<Rightarrow> AudioSegment \<Rightarrow> AudioSegment \<Rightarrow> error + AudioSegment" where
  "append_segment ops self seg =
     (case sync ops self seg of
        Inl e \<Rightarrow> Inl e
      | Inr (seg1, seg2) \<Rightarrow> Inr (seg1\<lparr>frames := frames seg1 @ frames seg2\<rparr>))"

text \<open>
  \<^verbatim>\<open>sum(audio_segments)\<close> starts from the integer \<open>0\<close> and adds the segments from
  left to right, so its running value is an integer or a segment.
  \<^verbatim>\<open>0 + segment\<close> is \<^verbatim>\<open>AudioSegment.__radd__\<close>, which returns the segment for the
  integer \<open>0\<close> and raises \<^verbatim>\<open>TypeError\<close> otherwise; \<^verbatim>\<open>segment + segment\<close> is
  \<^verbatim>\<open>AudioSegment.__add__\<close>, which for a segment operand is
  \<^verbatim>\<open>append(arg, crossfade=0)\<close>.
\<close>

datatype pyval = PyInt int | Seg AudioSegment

fun py_add :: "audioop \<Rightarrow> pyval \<Rightarrow> AudioSegment \<Rightarrow> error + pyval" where
  "py_add ops (PyInt n) s = (if n = 0 then Inr (Seg s) else Inl TypeError)"
| "py_add ops (Seg a) s = (case append_segment ops a s of Inl e \<Rightarrow> Inl e | Inr r \<Rightarrow> Inr (Seg r))"

fun sum_from :: "audioop \<Rightarrow> pyval \<Rightarrow> AudioSegment list \<Rightarrow> error + pyval" where
  "sum_from ops acc [] = Inr acc"
| "sum_from ops acc (s # ss) =
     (case py_add ops acc s of Inl e \<Rightarrow> Inl e | Inr acc' \<Rightarrow> sum_from ops acc' ss)"

definition py_sum :: "audioop \<Rightarrow> AudioSegment list \<Rightarrow> error + pyval" where
  "py_sum ops ss = sum_from ops (PyInt 0) ss"

text \<open>\<^verbatim>\<open>value.export(output_path, format="wav")\<close>: an integer has no such method.\<close>

definition export :: "filesystem \<Rightarrow> pyval \<Rightarrow> string \<Rightarrow> error + filesystem" where
  "export fs v output_path =
     (case v of
        PyInt _ \<Rightarrow> Inl AttributeError
      | Seg a \<Rightarrow> Inr (fs(output_path \<mapsto> WavFile a)))"

text \<open>\<^verbatim>\<open>segment.set_volume(volume)\<close>: \<^verbatim>\<open>AudioSegment\<close> has no method of that name
  (gain is changed by \<^verbatim>\<open>apply_gain\<close> or \<^verbatim>\<open>segment + dB\<close>), so the attribute lookup
  raises.\<close>

definition set_volume :: "AudioSegment \<Rightarrow> real \<Rightarrow> error + AudioSegment" where
  "set_volume segment volume = Inl AttributeError"

text \<open>A list comprehension \<^verbatim>\<open>[f(x) for x in xs]\<close> whose body may raise: the elements
  are evaluated in order and the first exception ends the comprehension.\<close>

fun comprehension :: "('a \<Rightarrow> error + 'b) \<Rightarrow> 'a list \<Rightarrow> error + 'b list" where
  "comprehension f [] = Inr []"
| "comprehension f (x # xs) =
     (case f x of
        Inl e \<Rightarrow> Inl e
      | Inr y \<Rightarrow> (case comprehension f xs of Inl e \<Rightarrow> Inl e | Inr ys \<Rightarrow> Inr (y # ys)))"

section \<open>\<^verbatim>\<open>soundhub/audio.py\<close>\<close>

text \<open>
  Each function takes the file system and returns its outcome together with the file
  system it leaves behind. \<^verbatim>\<open>None\<close> arguments are \<open>None\<close> of an option type. The
  functions that add segments take the two converters as their first argument.
\<close>

definition trim ::
  "filesystem \<Rightarrow> string \<Rightarrow> string \<Rightarrow> int option \<Rightarrow> int \<Rightarrow> int option \<Rightarrow> (error + unit) \<times> filesystem"
where
  "trim fs audio_path output_path trim_length start_time end_time =
     (case from_file fs audio_path of
        Inl e \<Rightarrow> (Inl e, fs)
      | Inr audio \<Rightarrow>
          (let end_time1 = (case trim_length of
                              Some l \<Rightarrow> Some (start_time + l)
                            | None \<Rightarrow> end_time);
               end_time2 = (case end_time1 of None \<Rightarrow> len audio | Some t \<Rightarrow> t);
               end_time3 = min end_time2 (len audio)
           in case getitem_slice audio start_time end_time3 of
                Inl e \<Rightarrow> (Inl e, fs)
              | Inr trimmed_audio \<Rightarrow>
                  (case export fs (Seg trimmed_audio) output_path of
                     Inl e \<Rightarrow> (Inl e, fs)
                   | Inr fs' \<Rightarrow> (Inr (), fs'))))"

definition concat_audio ::
  "audioop \<Rightarrow> filesystem \<Rightarrow> string list \<Rightarrow> string \<Rightarrow> (error + unit) \<times> filesystem"
where
  "concat_audio ops fs audio_paths output_path =
     (case comprehension (from_file fs) audio_paths of
        Inl e \<Rightarrow> (Inl e, fs)
      | Inr audio_segments \<Rightarrow>
          (case py_sum ops audio_segments of
             Inl e \<Rightarrow> (Inl e, fs)
           | Inr concatenated_audio \<Rightarrow>
               (case export fs concatenated_audio output_path of
                  Inl e \<Rightarrow> (Inl e, fs)
                | Inr fs' \<Rightarrow> (Inr (), fs'))))"

text \<open>
  The two handlers shared by \<^verbatim>\<open>mix\<close> and \<^verbatim>\<open>mix_two\<close>:
  \<^verbatim>\<open>except FileNotFoundError\<close> raises a new \<^verbatim>\<open>FileNotFoundError\<close>,
  \<^verbatim>\<open>except Exception\<close> raises a new \<^verbatim>\<open>Exception\<close> for everything else.
\<close>

definition handlers :: "error \<Rightarrow> error" where
  "handlers e = (if e = FileNotFoundError then FileNotFoundError else Exception)"

text \<open>The body of the \<^verbatim>\<open>try\<close> block of \<^verbatim>\<open>mix\<close>.\<close>

definition mix_try ::
  "audioop \<Rightarrow> filesystem \<Rightarrow> string list \<Rightarrow> string \<Rightarrow> real \<Rightarrow> error + filesystem"
where
  "mix_try ops fs audio_paths output_path volume =
     (case comprehension (from_file fs) audio_paths of
        Inl e \<Rightarrow> Inl e
      | Inr audio_segments \<Rightarrow>
          (case (if volume \<noteq> 1
                 then comprehension (\<lambda>segment. set_volume segment volume) audio_segments
                 else Inr audio_segments) of
             Inl e \<Rightarrow> Inl e
           | Inr audio_segments' \<Rightarrow>
               (case py_sum ops audio_segments' of
                  Inl e \<Rightarrow> Inl e
                | Inr mixed_audio \<Rightarrow> export fs mixed_audio output_path)))"

definition mix ::
  "audioop \<Rightarrow> filesystem \<Rightarrow> string list \<Rightarrow> string \<Rightarrow> real \<Rightarrow> (error + unit) \<times> filesystem"
where
  "mix ops fs audio_paths output_path volume =
     (case mix_try ops fs audio_paths output_path volume of
        Inl e \<Rightarrow> (Inl (handlers e), fs)
      | Inr fs' \<Rightarrow> (Inr (), fs'))"

text \<open>The body of the \<^verbatim>\<open>try\<close> block of \<^verbatim>\<open>mix_two\<close>.\<close>

definition mix_two_try ::
  "audioop \<Rightarrow> filesystem \<Rightarrow> string \<Rightarrow> string \<Rightarrow> string \<Rightarrow> real \<Rightarrow> error + filesystem"
where
  "mix_two_try ops fs audio_path1 audio_path2 output_path volume =
     (case from_file fs audio_path1 of
        Inl e \<Rightarrow> Inl e
      | Inr audio_segment1 \<Rightarrow>
          (case from_file fs audio_path2 of
             Inl e \<Rightarrow> Inl e
           | Inr audio_segment2 \<Rightarrow>
               (case (if volume \<noteq> 1
                      then (case set_volume audio_segment1 volume of
                              Inl e \<Rightarrow> Inl e
                            | Inr s1 \<Rightarrow>
                                (case set_volume audio_segment2 volume of
                                   Inl e \<Rightarrow> Inl e
                                 | Inr s2 \<Rightarrow> Inr (s1, s2)))
                      else Inr (audio_segment1, audio_segment2)) of
                  Inl e \<Rightarrow> Inl e
                | Inr (s1, s2) \<Rightarrow>
                    (case py_add ops (Seg s1) s2 of
                       Inl e \<Rightarrow> Inl e
                     | Inr mixed_audio \<Rightarrow> export fs mixed_audio output_path))))"

definition mix_two ::
  "audioop \<Rightarrow> filesystem \<Rightarrow> string \<Rightarrow> string \<Rightarrow> string \<Rightarrow> real \<Rightarrow> (error + unit) \<times> filesystem"
where
  "mix_two ops fs audio_path1 audio_path2 output_path volume =
     (case mix_two_try ops fs audio_path1 audio_path2 output_path volume of
        Inl e \<Rightarrow> (Inl (handlers e), fs)
      | Inr fs' \<Rightarrow> (Inr (), fs'))"

text \<open>Two segments have the same format.\<close>

definition same_format :: "AudioSegment \<Rightarrow> AudioSegment \<Rightarrow> bool" where
  "same_format a b \<longleftrightarrow>
     frame_rate a = frame_rate b \<and> channels a = channels b \<and> sample_width a = sample_width b"

section \<open>The interfaces used by \<^verbatim>\<open>soundhub/retrieve.py\<close>\<close>

text \<open>\<^verbatim>\<open>str.startswith\<close> and \<^verbatim>\<open>str.endswith\<close>.\<close>

definition startswith :: "string \<Rightarrow> string \<Rightarrow> bool" where
  "startswith s pre = (take (length pre) s = pre)"

definition endswith :: "string \<Rightarrow> string \<Rightarrow> bool" where
  "endswith s suf = (length suf \<le> length s \<and> drop (length s - length suf) s = suf)"

text \<open>\<^verbatim>\<open>os.path.join(a, p)\<close> with two arguments, on POSIX.\<close>

definition path_join :: "string \<Rightarrow> string \<Rightarrow> string" where
  "path_join a p =
     (if startswith p ''/'' then p
      else if a = [] \<or> endswith a ''/'' then a @ p
      else a @ ''/'' @ p)"

text \<open>
  The model object \<^verbatim>\<open>CLAP(version='2023', use_cuda=False)\<close> is opaque: it is a
  record of its three methods, each of which may raise. \<open>'e\<close> is the type of
  embeddings and \<open>'s\<close> the type of similarity scores; the sort compares scores,
  so they are linearly ordered.
\<close>

record ('e, 's) CLAP =
  get_text_embeddings :: "string list \<Rightarrow> error + 'e"
  get_audio_embeddings :: "string list \<Rightarrow> error + 'e"
  compute_similarity :: "'e \<Rightarrow> 'e \<Rightarrow> error + 's"

text \<open>The invocations of the model, in the order they are made. A call is logged
  when it is made, whether it returns or raises.\<close>

datatype 'e call =
    GetTextEmbeddings "string list"
  | GetAudioEmbeddings "string list"
  | ComputeSimilarity 'e 'e

fun is_text_call :: "'e call \<Rightarrow> bool" where
  "is_text_call (GetTextEmbeddings _) = True"
| "is_text_call _ = False"

fun is_audio_call :: "'e call \<Rightarrow> bool" where
  "is_audio_call (GetAudioEmbeddings _) = True"
| "is_audio_call _ = False"

fun is_similarity_call :: "'e call \<Rightarrow> bool" where
  "is_similarity_call (ComputeSimilarity _ _) = True"
| "is_similarity_call _ = False"

text \<open>
  \<^verbatim>\<open>xs.sort(key=k, reverse=True)\<close>: the list is reversed, sorted by a stable
  ascending sort, and reversed again.
\<close>

definition sort_reverse :: "('a \<Rightarrow> 's::linorder) \<Rightarrow> 'a list \<Rightarrow> 'a list" where
  "sort_reverse k xs = rev (sort_key k (rev xs))"

section \<open>\<^verbatim>\<open>soundhub/retrieve.py\<close>\<close>

text \<open>The list comprehension that enumerates the candidate files.\<close>

definition audio_files_of :: "string \<Rightarrow> string list \<Rightarrow> string list" where
  "audio_files_of audio_folder names =
     map (path_join audio_folder) (filter (\<lambda>f. endswith f ''.wav'') names)"

text \<open>The \<^verbatim>\<open>for audio_file in audio_files\<close> loop, with the call log and the list
  \<^verbatim>\<open>similarities\<close> as its state.\<close>

fun similarity_loop ::
  "('e, 's) CLAP \<Rightarrow> 'e \<Rightarrow> string list \<Rightarrow> 'e call list \<Rightarrow> (string \<times> 's) list
     \<Rightarrow> 'e call list \<times> (error + (string \<times> 's) list)"
where
  "similarity_loop clap_model text_embeddings [] calls similarities = (calls, Inr similarities)"
| "similarity_loop clap_model text_embeddings (audio_file # rest) calls similarities =
     (case get_audio_embeddings clap_model [audio_file] of
        Inl e \<Rightarrow> (calls @ [GetAudioEmbeddings [audio_file]], Inl e)
      | Inr audio_embeddings \<Rightarrow>
          (case compute_similarity clap_model audio_embeddings text_embeddings of
             Inl e \<Rightarrow>
               (calls @ [GetAudioEmbeddings [audio_file],
                       ComputeSimilarity audio_embeddings text_embeddings], Inl e)
           | Inr similarity \<Rightarrow>
               similarity_loop clap_model text_embeddings rest
                 (calls @ [GetAudioEmbeddings [audio_file],
                         ComputeSimilarity audio_embeddings text_embeddings])
                 (similarities @ [(audio_file, similarity)])))"

text \<open>
  \<open>new_CLAP\<close> is the outcome of constructing the model and \<open>listdir\<close> is
  \<^verbatim>\<open>os.listdir\<close>. The result is the call log together with the exception raised or
  the list returned.
\<close>

definition retrieve_audio ::
  "(error + ('e, 's::linorder) CLAP) \<Rightarrow> (string \<Rightarrow> error + string list)
     \<Rightarrow> string \<Rightarrow> string \<Rightarrow> int \<Rightarrow> 'e call list \<times> (error + string list)"
where
  "retrieve_audio new_CLAP listdir query_text audio_folder top_n =
     (case new_CLAP of
        Inl e \<Rightarrow> ([], Inl e)
      | Inr clap_model \<Rightarrow>
          (case listdir audio_folder of
             Inl e \<Rightarrow> ([], Inl e)
           | Inr names \<Rightarrow>
               (let audio_files = audio_files_of audio_folder names in
                case get_text_embeddings clap_model [query_text] of
                  Inl e \<Rightarrow> ([GetTextEmbeddings [query_text]], Inl e)
                | Inr text_embeddings \<Rightarrow>
                    (case similarity_loop clap_model text_embeddings audio_files
                            [GetTextEmbeddings [query_text]] [] of
                       (calls, Inl e) \<Rightarrow> (calls, Inl e)
                     | (calls, Inr similarities) \<Rightarrow>
                         (let sorted_similarities = sort_reverse snd similarities;
                              top_similar_audio_files =
                                map fst (py_slice sorted_similarities 0 top_n)
                          in (calls, Inr top_similar_audio_files))))))"

text \<open>The score the loop computes for one file, when both model calls return.\<close>

definition score_of :: "('e, 's) CLAP \<Rightarrow> 'e \<Rightarrow> string \<Rightarrow> 's option" where
  "score_of clap_model text_embeddings audio_file =
     (case get_audio_embeddings clap_model [audio_file] of
        Inl e \<Rightarrow> None
      | Inr audio_embeddings \<Rightarrow>
          (case compute_similarity clap_model audio_embeddings text_embeddings of
             Inl e \<Rightarrow> None
           | Inr similarity \<Rightarrow> Some similarity))"

text \<open>The two model calls the loop makes for one file whose calls return.\<close>

definition calls_of :: "('e, 's) CLAP \<Rightarrow> 'e \<Rightarrow> string \<Rightarrow> 'e call list" where
  "calls_of clap_model text_embeddings audio_file =
     (case get_audio_embeddings clap_model [audio_file] of
        Inl e \<Rightarrow> [GetAudioEmbeddings [audio_file]]
      | Inr audio_embeddings \<Rightarrow>
          [GetAudioEmbeddings [audio_file],
           ComputeSimilarity audio_embeddings text_embeddings])"

text \<open>The list \<^verbatim>\<open>similarities\<close> the loop builds when every call returns.\<close>

definition scored :: "('e, 's) CLAP \<Rightarrow> 'e \<Rightarrow> string list \<Rightarrow> (string \<times> 's) list" where
  "scored clap_model text_embeddings audio_files =
     map (\<lambda>f. (f, the (score_of clap_model text_embeddings f))) audio_files"

section \<open>Concrete environments\<close>

text \<open>Clips of 16-bit samples, mono and stereo.\<close>

definition mono_clip :: "nat \<Rightarrow> int list list \<Rightarrow> AudioSegment" where
  "mono_clip r fr = \<lparr>frame_rate = r, channels = 1, sample_width = 2, frames = fr\<rparr>"

definition stereo_clip :: "nat \<Rightarrow> int list list \<Rightarrow> AudioSegment" where
  "stereo_clip r fr = \<lparr>frame_rate = r, channels = 2, sample_width = 2, frames = fr\<rparr>"

text \<open>A file system with two mono clips of 3 ms and 2 ms at 1000 frames per second,
  and one file that is not audio.\<close>

definition fs0 :: filesystem where
  "fs0 = [''a.wav'' \<mapsto> WavFile (mono_clip 1000 [[1], [2], [3]]),
          ''b.wav'' \<mapsto> WavFile (mono_clip 1000 [[10], [20]]),
          ''notes.txt'' \<mapsto> OtherFile]"

text \<open>
  A file system with a clip of 11 frames at 8000 frames per second (1.375 ms), a clip
  of 10 frames at 1100 frames per second (about 9.09 ms), and a mono and a stereo clip
  at 8000 frames per second.
\<close>

definition fs1 :: filesystem where
  "fs1 = [''c.wav'' \<mapsto> WavFile (mono_clip 8000 [[1], [2], [3], [4], [5], [6], [7], [8], [9], [10], [11]]),
          ''d.wav'' \<mapsto> WavFile (mono_clip 1100 [[1], [2], [3], [4], [5], [6], [7], [8], [9], [10]]),
          ''m.wav'' \<mapsto> WavFile (mono_clip 8000 [[1], [2], [3]]),
          ''s.wav'' \<mapsto> WavFile (stereo_clip 8000 [[10, 11], [20, 21]])]"

text \<open>Stand-ins for the two converters, for the evaluations below; none of them
  resamples or changes the sample width.\<close>

definition no_conversion :: audioop where
  "no_conversion = \<lparr> ratecv = (\<lambda>fragment width nchannels inrate outrate. fragment),
                      lin2lin = (\<lambda>fragment width newwidth. fragment) \<rparr>"

text \<open>
  A stub model: the embedding of a text or of a file is the length of its name, the
  score of a file is the distance of the two embeddings, negated, so that names as
  long as the query score highest. The file \<^verbatim>\<open>broken/bad.wav\<close> cannot be embedded.
\<close>

definition stub_CLAP :: "(nat, int) CLAP" where
  "stub_CLAP =
     \<lparr> get_text_embeddings = (\<lambda>ts. Inr (length (concat ts))),
       get_audio_embeddings =
         (\<lambda>ps. if ps = [''broken/bad.wav''] then Inl ModelError else Inr (length (concat ps))),
       compute_similarity = (\<lambda>a t. Inr (- abs (int a - int t))) \<rparr>"

definition corpus_names :: "string list" where
  "corpus_names = [''dog.wav'', ''readme.md'', ''rain.wav'', ''cat.wav'', ''thunder.wav'']"

definition stub_listdir :: "string \<Rightarrow> error + string list" where
  "stub_listdir folder =
     (if folder = ''corpus'' then Inr corpus_names
      else if folder = ''broken'' then Inr [''dog.wav'', ''bad.wav'', ''rain.wav'']
      else if folder = ''empty'' then Inr []
      else Inl FileNotFoundError)"

section \<open>Properties of the audio functions\<close>


lemma py_round_zero: "0 \<le> q \<Longrightarrow> py_round 0 q = 0"
  by (simp add: py_round_def)

lemma py_round_multiple: "0 < q \<Longrightarrow> py_round (d * q) q = d"
  by (simp add: py_round_def)


lemma len_no_frames: "frames a = [] \<Longrightarrow> len a = 0"
  by (simp add: len_def frame_count_def py_round_zero)



lemma py_slice_empty: "py_slice xs i i = []"
  by (simp add: py_slice_def Let_def)

lemma py_slice_from_zero:
  "py_slice xs 0 n = (if n < 0 then take (length xs - nat (- n)) xs else take (nat n) xs)"
  by (auto simp: py_slice_def Let_def min_def max_def intro: arg_cong2[where f=take])

lemma getitem_slice_past_end:
  "len a \<le> start \<Longrightarrow> getitem_slice a start (len a) = Inr (a\<lparr>frames := []\<rparr>)"
  by (simp add: getitem_slice_def py_slice_empty Let_def min_def)


lemma sync_same_format: "same_format a b \<Longrightarrow> sync ops a b = Inr (a, b)"
  by (simp add: same_format_def sync_def sync_one_def set_channels_def set_frame_rate_def
        set_sample_width_def)

lemma append_segment_same_format:
  "same_format a b \<Longrightarrow> append_segment ops a b = Inr (a\<lparr>frames := frames a @ frames b\<rparr>)"
  by (simp add: append_segment_def sync_same_format)

lemma same_format_refl: "same_format a a"
  by (simp add: same_format_def)

lemma py_sum_Nil: "py_sum ops [] = Inr (PyInt 0)"
  by (simp add: py_sum_def)

lemma py_sum_two:
  "py_sum ops [a, b] = (case append_segment ops a b of Inl e \<Rightarrow> Inl e | Inr r \<Rightarrow> Inr (Seg r))"
  by (simp add: py_sum_def split: sum.splits)

lemma comprehension_first_failure:
  assumes "\<forall>y\<in>set before. \<exists>b. f y = Inr b" and "f x = Inl e"
  shows "comprehension f (before @ x # after) = Inl e"
  using assms by (induction before) (auto split: sum.splits)

lemma comprehension_set_volume:
  "comprehension (\<lambda>segment. set_volume segment volume) ss =
     (if ss = [] then Inr [] else Inl AttributeError)"
  by (cases ss) (simp_all add: set_volume_def)

lemma mix_is_concat_audio:
  "mix ops fs audio_paths output_path 1 =
     (case concat_audio ops fs audio_paths output_path of
        (Inl e, fs') \<Rightarrow> (Inl (handlers e), fs')
      | (Inr u, fs') \<Rightarrow> (Inr u, fs'))"
  by (simp add: mix_def mix_try_def concat_audio_def split: sum.splits)

lemma from_file_fs0:
  "from_file fs0 ''a.wav'' = Inr (mono_clip 1000 [[1], [2], [3]])"
  "from_file fs0 ''b.wav'' = Inr (mono_clip 1000 [[10], [20]])"
  "from_file fs0 ''notes.txt'' = Inl CouldntDecodeError"
  "from_file fs0 ''missing.wav'' = Inl FileNotFoundError"
  by (simp_all add: from_file_def fs0_def)

lemma from_file_fs1:
  "from_file fs1 ''c.wav'' =
     Inr (mono_clip 8000 [[1], [2], [3], [4], [5], [6], [7], [8], [9], [10], [11]])"
  "from_file fs1 ''d.wav'' =
     Inr (mono_clip 1100 [[1], [2], [3], [4], [5], [6], [7], [8], [9], [10]])"
  "from_file fs1 ''m.wav'' = Inr (mono_clip 8000 [[1], [2], [3]])"
  "from_file fs1 ''s.wav'' = Inr (stereo_clip 8000 [[10, 11], [20, 21]])"
  by (simp_all add: from_file_def fs1_def)

lemma clip_simps:
  "frame_rate (mono_clip r fr) = r" "channels (mono_clip r fr) = 1"
  "sample_width (mono_clip r fr) = 2" "frames (mono_clip r fr) = fr"
  "(mono_clip r fr)\<lparr>frames := fr'\<rparr> = mono_clip r fr'"
  "(mono_clip r fr = mono_clip r' fr') = (r = r' \<and> fr = fr')"
  "frame_rate (stereo_clip r fr) = r" "channels (stereo_clip r fr) = 2"
  "sample_width (stereo_clip r fr) = 2" "frames (stereo_clip r fr) = fr"
  "(stereo_clip r fr)\<lparr>frames := fr'\<rparr> = stereo_clip r fr'"
  "(stereo_clip r fr = stereo_clip r' fr') = (r = r' \<and> fr = fr')"
  by (auto simp: mono_clip_def stereo_clip_def)

lemma len_clip:
  "len (mono_clip r fr) = py_round (1000 * int (length fr)) (int r)"
  "len (stereo_clip r fr) = py_round (1000 * int (length fr)) (int r)"
  by (simp_all add: len_def frame_count_def clip_simps)

text \<open>
  Claim C1, at a failing input. \<^verbatim>\<open>a.wav\<close> holds the frames \<open>1, 2, 3\<close>. Mixing it with
  itself at volume \<open>1.0\<close>, by \<^verbatim>\<open>mix\<close> or by \<^verbatim>\<open>mix_two\<close>, writes the six frames
  \<open>1, 2, 3, 1, 2, 3\<close>: a clip of twice the duration, and not the doubled frames
  \<open>2, 4, 6\<close> of a sample-wise sum.
\<close>

theorem mix_self_concatenates:
  "from_file fs0 ''a.wav'' = Inr (mono_clip 1000 [[1], [2], [3]]) \<and>
   mix ops fs0 [''a.wav'', ''a.wav''] ''out.wav'' 1
     = (Inr (), fs0(''out.wav'' \<mapsto> WavFile (mono_clip 1000 [[1], [2], [3], [1], [2], [3]]))) \<and>
   mix_two ops fs0 ''a.wav'' ''a.wav'' ''out.wav'' 1
     = (Inr (), fs0(''out.wav'' \<mapsto> WavFile (mono_clip 1000 [[1], [2], [3], [1], [2], [3]]))) \<and>
   len (mono_clip 1000 [[1], [2], [3], [1], [2], [3]]) = 2 * len (mono_clip 1000 [[1], [2], [3]]) \<and>
   [[1], [2], [3], [1], [2], [3]] \<noteq> map (map (\<lambda>x. 2 * x)) [[1], [2], [3 :: int]]"
  by (simp add: from_file_fs0 mix_def mix_try_def mix_two_def mix_two_try_def
        py_sum_two append_segment_same_format same_format_refl export_def len_clip
        py_round_def clip_simps)










text \<open>
  Claim C7, as amended. For clips \<open>A\<close> and \<open>B\<close> of the same format, \<^verbatim>\<open>concat\<close>
  applied to the two paths returns normally and writes, in that format, the frames of
  \<open>A\<close> followed by the frames of \<open>B\<close>; the frame count is the sum of the two frame
  counts, and the duration is the sum of the two durations when each clip holds
  exactly as many frames as its duration in milliseconds spans.
\<close>

theorem concat_two:
  assumes "from_file fs path_a = Inr A" and "from_file fs path_b = Inr B"
    and "same_format A B"
  shows "concat_audio ops fs [path_a, path_b] output_path
           = (Inr (), fs(output_path \<mapsto> WavFile (A\<lparr>frames := frames A @ frames B\<rparr>))) \<and>
         frame_count (A\<lparr>frames := frames A @ frames B\<rparr>) = frame_count A + frame_count B \<and>
         (1000 * int (frame_count A) = len A * int (frame_rate A) \<and>
          1000 * int (frame_count B) = len B * int (frame_rate B)
            \<longrightarrow> len (A\<lparr>frames := frames A @ frames B\<rparr>) = len A + len B)"
proof (intro conjI impI)
  show "concat_audio ops fs [path_a, path_b] output_path
           = (Inr (), fs(output_path \<mapsto> WavFile (A\<lparr>frames := frames A @ frames B\<rparr>)))"
    using assms
    by (simp add: concat_audio_def py_sum_two append_segment_same_format export_def)
  show "frame_count (A\<lparr>frames := frames A @ frames B\<rparr>) = frame_count A + frame_count B"
    by (simp add: frame_count_def)
next
  assume w: "1000 * int (frame_count A) = len A * int (frame_rate A) \<and>
          1000 * int (frame_count B) = len B * int (frame_rate B)"
  have r: "frame_rate B = frame_rate A"
    using assms(3) by (simp add: same_format_def)
  show "len (A\<lparr>frames := frames A @ frames B\<rparr>) = len A + len B"
  proof (cases "frame_rate A = 0")
    case True
    with w r have "frame_count A = 0" "frame_count B = 0" by simp_all
    then show ?thesis
      by (simp add: len_def frame_count_def py_round_zero)
  next
    case False
    have "1000 * int (frame_count (A\<lparr>frames := frames A @ frames B\<rparr>))
            = (len A + len B) * int (frame_rate A)"
      using w r by (simp add: frame_count_def algebra_simps)
    then have "len (A\<lparr>frames := frames A @ frames B\<rparr>)
            = py_round ((len A + len B) * int (frame_rate A)) (int (frame_rate A))"
      by (simp add: len_def)
    also have "\<dots> = len A + len B"
      using False by (intro py_round_multiple) simp
    finally show ?thesis .
  qed
qed

theorem concat_two_witness:
  "from_file fs0 ''a.wav'' = Inr (mono_clip 1000 [[1], [2], [3]]) \<and>
   from_file fs0 ''b.wav'' = Inr (mono_clip 1000 [[10], [20]]) \<and>
   concat_audio no_conversion fs0 [''a.wav'', ''b.wav''] ''out.wav''
     = (Inr (), fs0(''out.wav'' \<mapsto> WavFile (mono_clip 1000 [[1], [2], [3], [10], [20]]))) \<and>
   len (mono_clip 1000 [[1], [2], [3], [10], [20]])
     = len (mono_clip 1000 [[1], [2], [3]]) + len (mono_clip 1000 [[10], [20]])"
  using concat_two [of fs0 "''a.wav''" "mono_clip 1000 [[1], [2], [3]]" "''b.wav''"
      "mono_clip 1000 [[10], [20]]" no_conversion "''out.wav''"]
  by (simp add: from_file_fs0 same_format_def clip_simps len_clip py_round_def frame_count_def)

text \<open>
  Claim C7 as stated fails in two ways. Durations are rounded to milliseconds and do
  not add up: a clip of 11 frames at 8000 frames per second has duration 1, and
  joined with itself it has 22 frames and duration 3. Clips of different formats are
  converted before they are joined: a mono clip with samples \<open>1, 2, 3\<close> followed by
  a stereo clip gives the samples \<open>1, 1, 2, 2, 3, 3\<close> and then those of the stereo
  clip.
\<close>

theorem concat_two_counterexample:
  "from_file fs1 ''c.wav'' =
     Inr (mono_clip 8000 [[1], [2], [3], [4], [5], [6], [7], [8], [9], [10], [11]]) \<and>
   len (mono_clip 8000 [[1], [2], [3], [4], [5], [6], [7], [8], [9], [10], [11]]) = 1 \<and>
   concat_audio no_conversion fs1 [''c.wav'', ''c.wav''] ''out.wav''
     = (Inr (), fs1(''out.wav'' \<mapsto> WavFile (mono_clip 8000
          [[1], [2], [3], [4], [5], [6], [7], [8], [9], [10], [11],
           [1], [2], [3], [4], [5], [6], [7], [8], [9], [10], [11]]))) \<and>
   len (mono_clip 8000
          [[1], [2], [3], [4], [5], [6], [7], [8], [9], [10], [11],
           [1], [2], [3], [4], [5], [6], [7], [8], [9], [10], [11]]) = 3 \<and>
   from_file fs1 ''m.wav'' = Inr (mono_clip 8000 [[1], [2], [3]]) \<and>
   from_file fs1 ''s.wav'' = Inr (stereo_clip 8000 [[10, 11], [20, 21]]) \<and>
   concat_audio no_conversion fs1 [''m.wav'', ''s.wav''] ''out.wav''
     = (Inr (), fs1(''out.wav'' \<mapsto> WavFile (stereo_clip 8000
          [[1, 1], [2, 2], [3, 3], [10, 11], [20, 21]]))) \<and>
   concat [[1, 1], [2, 2], [3, 3], [10, 11], [20, 21]]
     \<noteq> concat [[1], [2], [3]] @ concat [[10, 11], [20, 21 :: int]]"
proof -
  let ?c = "mono_clip 8000 [[1], [2], [3], [4], [5], [6], [7], [8], [9], [10], [11]]"
  have lc: "len ?c = 1"
    and lcc: "len (mono_clip 8000
          [[1], [2], [3], [4], [5], [6], [7], [8], [9], [10], [11],
           [1], [2], [3], [4], [5], [6], [7], [8], [9], [10], [11]]) = 3"
    by (simp_all add: len_clip py_round_def)
  have cc: "concat_audio no_conversion fs1 [''c.wav'', ''c.wav''] ''out.wav''
     = (Inr (), fs1(''out.wav'' \<mapsto> WavFile (mono_clip 8000
          [[1], [2], [3], [4], [5], [6], [7], [8], [9], [10], [11],
           [1], [2], [3], [4], [5], [6], [7], [8], [9], [10], [11]])))"
    by (simp add: concat_audio_def from_file_fs1 py_sum_two append_segment_same_format
          same_format_refl export_def clip_simps del: One_nat_def)
  have sy: "append_segment no_conversion (mono_clip 8000 [[1], [2], [3]])
              (stereo_clip 8000 [[10, 11], [20, 21]])
            = Inr (stereo_clip 8000 [[1, 1], [2, 2], [3, 3], [10, 11], [20, 21]])"
    by (simp add: append_segment_def sync_def sync_one_def set_channels_def
          set_frame_rate_def set_sample_width_def mono_clip_def stereo_clip_def numeral_2_eq_2)
  have ms: "concat_audio no_conversion fs1 [''m.wav'', ''s.wav''] ''out.wav''
     = (Inr (), fs1(''out.wav'' \<mapsto> WavFile (stereo_clip 8000
          [[1, 1], [2, 2], [3, 3], [10, 11], [20, 21]])))"
    by (simp add: concat_audio_def from_file_fs1 py_sum_two sy export_def del: One_nat_def)
  have ne: "concat [[1, 1], [2, 2], [3, 3], [10, 11], [20, 21]]
     \<noteq> concat [[1], [2], [3]] @ concat [[10, 11], [20, 21 :: int]]"
    by simp
  from lc lcc cc ms ne show ?thesis
    by (simp only: from_file_fs1 simp_thms)
qed

text \<open>
  Claim C10. \<^verbatim>\<open>trim\<close> clamps \<^verbatim>\<open>end_time\<close> only and passes \<^verbatim>\<open>start_time\<close> on as it
  is: for a clip of duration \<open>D\<close> and a \<^verbatim>\<open>start_time\<close> beyond \<open>D\<close>, with
  \<^verbatim>\<open>trim_length\<close> and \<^verbatim>\<open>end_time\<close> left at \<^verbatim>\<open>None\<close>, the call returns normally and
  writes the empty clip, of duration \<open>0\<close>.
\<close>

theorem trim_start_past_end:
  assumes "from_file fs audio_path = Inr audio" and "len audio < start_time"
  shows "trim fs audio_path output_path None start_time None
           = (Inr (), fs(output_path \<mapsto> WavFile (audio\<lparr>frames := []\<rparr>))) \<and>
         len (audio\<lparr>frames := []\<rparr>) = 0"
proof -
  have "getitem_slice audio start_time (len audio) = Inr (audio\<lparr>frames := []\<rparr>)"
    using assms(2) by (simp add: getitem_slice_past_end)
  then show ?thesis
    using assms(1) by (simp add: trim_def export_def len_no_frames)
qed

theorem trim_start_past_end_witness:
  "from_file fs0 ''a.wav'' = Inr (mono_clip 1000 [[1], [2], [3]]) \<and>
   len (mono_clip 1000 [[1], [2], [3]]) < 7 \<and>
   trim fs0 ''a.wav'' ''out.wav'' None 7 None
     = (Inr (), fs0(''out.wav'' \<mapsto> WavFile (mono_clip 1000 [])))"
proof -
  have l: "len (mono_clip 1000 [[1], [2], [3]]) = 3"
    by (simp add: len_clip py_round_def)
  show ?thesis
    using trim_start_past_end [of fs0 "''a.wav''" "mono_clip 1000 [[1], [2], [3]]" 7 "''out.wav''"]
    by (simp add: from_file_fs0 l clip_simps)
qed

lemma mix_try_volume:
  assumes "volume \<noteq> 1"
  shows "mix_try ops fs audio_paths output_path volume =
           (case comprehension (from_file fs) audio_paths of
              Inl e \<Rightarrow> Inl e
            | Inr ss \<Rightarrow> Inl AttributeError)"
  using assms
  by (auto simp: mix_try_def comprehension_set_volume py_sum_Nil export_def split: sum.splits)

lemma comprehension_all_exist:
  assumes "\<forall>p\<in>set ps. fs p \<noteq> None" and "comprehension (from_file fs) ps = Inl e"
  shows "e = CouldntDecodeError"
  using assms
  by (induction ps) (auto simp: from_file_def split: sum.splits option.splits stored.splits)

text \<open>
  Claim C9 as stated fails where an input file is missing: at volume \<open>0.5\<close> the call
  raises \<^verbatim>\<open>FileNotFoundError\<close>, not the generic \<^verbatim>\<open>Exception\<close>.
\<close>

theorem volume_scaling_raises_counterexample:
  "(1/2 :: real) \<noteq> 1 \<and>
   fst (mix no_conversion fs0 [''missing.wav''] ''out.wav'' (1/2)) = Inl FileNotFoundError \<and>
   fst (mix no_conversion fs0 [''missing.wav''] ''out.wav'' (1/2)) \<noteq> Inl Exception \<and>
   fst (mix_two no_conversion fs0 ''a.wav'' ''missing.wav'' ''out.wav'' (1/2)) \<noteq> Inl Exception"
  by (simp add: mix_def mix_try_def mix_two_def mix_two_try_def from_file_fs0 handlers_def)

lemma mix_volume:
  assumes "volume \<noteq> 1"
  shows "mix ops fs audio_paths output_path volume =
           (Inl (case comprehension (from_file fs) audio_paths of
                   Inl e \<Rightarrow> handlers e | Inr ss \<Rightarrow> Exception), fs)"
  using assms by (simp add: mix_def mix_try_volume handlers_def split: sum.splits)

lemma mix_two_volume:
  assumes "volume \<noteq> 1"
  shows "mix_two ops fs audio_path1 audio_path2 output_path volume =
           (Inl (case comprehension (from_file fs) [audio_path1, audio_path2] of
                   Inl e \<Rightarrow> handlers e | Inr ss \<Rightarrow> Exception), fs)"
  using assms
  by (simp add: mix_two_def mix_two_try_def set_volume_def handlers_def split: sum.splits)

lemma load_error_generic:
  assumes "\<forall>p\<in>set ps. fs p \<noteq> None"
  shows "(case comprehension (from_file fs) ps of
            Inl e \<Rightarrow> handlers e | Inr ss \<Rightarrow> Exception) = Exception"
proof (cases "comprehension (from_file fs) ps")
  case (Inl e)
  with assms have "e = CouldntDecodeError" by (rule comprehension_all_exist)
  with Inl show ?thesis by (simp add: handlers_def)
next
  case (Inr ss)
  then show ?thesis by simp
qed

text \<open>
  Claim C9, as amended. Every call of \<^verbatim>\<open>mix\<close> or \<^verbatim>\<open>mix_two\<close> with a volume other than
  \<open>1.0\<close> raises and leaves the file system as it was, so no output file is written.
  The exception is the one of the first input that fails to load, passed through the
  handlers (\<^verbatim>\<open>FileNotFoundError\<close> for a missing file, the generic \<^verbatim>\<open>Exception\<close> for
  anything else), and the generic \<^verbatim>\<open>Exception\<close> when every input loads, where the
  failure comes from the volume step. In particular the exception is the generic one
  whenever no input file is missing.
\<close>

theorem volume_scaling_raises:
  assumes "volume \<noteq> 1"
  shows "mix ops fs audio_paths output_path volume =
           (Inl (case comprehension (from_file fs) audio_paths of
                   Inl e \<Rightarrow> handlers e | Inr ss \<Rightarrow> Exception), fs) \<and>
         mix_two ops fs audio_path1 audio_path2 output_path volume =
           (Inl (case comprehension (from_file fs) [audio_path1, audio_path2] of
                   Inl e \<Rightarrow> handlers e | Inr ss \<Rightarrow> Exception), fs) \<and>
         ((\<forall>p\<in>set audio_paths. fs p \<noteq> None) \<longrightarrow>
           mix ops fs audio_paths output_path volume = (Inl Exception, fs)) \<and>
         (fs audio_path1 \<noteq> None \<and> fs audio_path2 \<noteq> None \<longrightarrow>
           mix_two ops fs audio_path1 audio_path2 output_path volume = (Inl Exception, fs))"
proof (intro conjI impI)
  show "mix ops fs audio_paths output_path volume =
           (Inl (case comprehension (from_file fs) audio_paths of
                   Inl e \<Rightarrow> handlers e | Inr ss \<Rightarrow> Exception), fs)"
    using assms by (rule mix_volume)
  show "mix_two ops fs audio_path1 audio_path2 output_path volume =
           (Inl (case comprehension (from_file fs) [audio_path1, audio_path2] of
                   Inl e \<Rightarrow> handlers e | Inr ss \<Rightarrow> Exception), fs)"
    using assms by (rule mix_two_volume)
next
  assume "\<forall>p\<in>set audio_paths. fs p \<noteq> None"
  then show "mix ops fs audio_paths output_path volume = (Inl Exception, fs)"
    by (simp only: mix_volume[OF assms] load_error_generic)
next
  assume "fs audio_path1 \<noteq> None \<and> fs audio_path2 \<noteq> None"
  then have "\<forall>p\<in>set [audio_path1, audio_path2]. fs p \<noteq> None" by simp
  then show "mix_two ops fs audio_path1 audio_path2 output_path volume = (Inl Exception, fs)"
    by (simp only: mix_two_volume[OF assms] load_error_generic)
qed

theorem volume_scaling_raises_witness:
  "(1/2 :: real) \<noteq> 1 \<and>
   mix no_conversion fs0 [''a.wav'', ''b.wav''] ''out.wav'' (1/2) = (Inl Exception, fs0) \<and>
   mix_two no_conversion fs0 ''a.wav'' ''b.wav'' ''out.wav'' (1/2) = (Inl Exception, fs0) \<and>
   mix no_conversion fs0 [''a.wav'', ''missing.wav''] ''out.wav'' (1/2) = (Inl FileNotFoundError, fs0)"
  using volume_scaling_raises [of "1/2" no_conversion fs0 "[''a.wav'', ''b.wav'']" "''out.wav''" "''a.wav''" "''b.wav''"]
    volume_scaling_raises [of "1/2" no_conversion fs0 "[''a.wav'', ''missing.wav'']" "''out.wav''" "''a.wav''" "''b.wav''"]
  by (simp add: from_file_fs0 handlers_def)

section \<open>Properties of the retrieval function\<close>

lemma stub_env:
  "stub_listdir ''corpus'' = Inr corpus_names"
  "stub_listdir ''empty'' = Inr []"
  "stub_listdir ''broken'' = Inr [''dog.wav'', ''bad.wav'', ''rain.wav'']"
  "get_text_embeddings stub_CLAP [''a dog barks''] = Inr 11"
  by (simp_all add: stub_listdir_def stub_CLAP_def)

lemma audio_files_corpus:
  "audio_files_of ''corpus'' corpus_names =
     [''corpus/dog.wav'', ''corpus/rain.wav'', ''corpus/cat.wav'', ''corpus/thunder.wav'']"
  "audio_files_of ''empty'' [] = []"
  "audio_files_of ''broken'' [''dog.wav'', ''bad.wav'', ''rain.wav''] =
     [''broken/dog.wav''] @ ''broken/bad.wav'' # [''broken/rain.wav'']"
  by (simp_all add: audio_files_of_def corpus_names_def endswith_def startswith_def path_join_def)

lemma score_of_stub:
  "score_of stub_CLAP 11 ''corpus/dog.wav'' = Some (- 3)"
  "score_of stub_CLAP 11 ''corpus/rain.wav'' = Some (- 4)"
  "score_of stub_CLAP 11 ''corpus/cat.wav'' = Some (- 3)"
  "score_of stub_CLAP 11 ''corpus/thunder.wav'' = Some (- 7)"
  "score_of stub_CLAP 11 ''broken/dog.wav'' = Some (- 3)"
  "score_of stub_CLAP 11 ''broken/bad.wav'' = None"
  by (simp_all add: score_of_def stub_CLAP_def)

lemma retrieve_stub_corpus:
  "snd (retrieve_audio (Inr stub_CLAP) stub_listdir ''a dog barks'' ''corpus'' 2)
     = Inr [''corpus/dog.wav'', ''corpus/cat.wav'']"
  by (simp add: retrieve_audio_def stub_env audio_files_corpus stub_CLAP_def sort_reverse_def py_slice_def)

lemma retrieve_stub_corpus_all:
  "snd (retrieve_audio (Inr stub_CLAP) stub_listdir ''a dog barks'' ''corpus'' 10)
     = Inr [''corpus/dog.wav'', ''corpus/cat.wav'', ''corpus/rain.wav'', ''corpus/thunder.wav'']"
  by (simp add: retrieve_audio_def stub_env audio_files_corpus stub_CLAP_def sort_reverse_def py_slice_def)

lemma stub_all_scored:
  "\<forall>f\<in>set (audio_files_of ''corpus'' corpus_names). score_of stub_CLAP 11 f \<noteq> None"
  by (simp add: audio_files_corpus score_of_stub)

lemma mset_sort_reverse: "mset (sort_reverse k xs) = mset xs"
  by (simp add: sort_reverse_def)

lemma set_sort_reverse: "set (sort_reverse k xs) = set xs"
  by (simp add: sort_reverse_def)

lemma length_sort_reverse: "length (sort_reverse k xs) = length xs"
  by (simp add: sort_reverse_def)

lemma sort_reverse_descending: "sorted_wrt (\<lambda>a b. k b \<le> k a) (sort_reverse k xs)"
proof -
  have "sorted (map k (sort_key k (rev xs)))" by simp
  then have "sorted_wrt (\<lambda>a b. k a \<le> k b) (sort_key k (rev xs))"
    by (simp add: sorted_map)
  then show ?thesis
    by (simp add: sort_reverse_def sorted_wrt_rev)
qed

lemma sort_reverse_stable:
  "filter (\<lambda>y. k y = c) (sort_reverse k xs) = filter (\<lambda>y. k y = c) xs"
  by (simp add: sort_reverse_def sort_key_stable flip: rev_filter)

lemma similarity_loop_ok:
  assumes "\<forall>f\<in>set files. score_of m te f \<noteq> None"
  shows "similarity_loop m te files calls sims =
           (calls @ concat (map (calls_of m te) files), Inr (sims @ scored m te files))"
  using assms
proof (induction files arbitrary: calls sims)
  case Nil
  show ?case by (simp add: scored_def)
next
  case (Cons f files)
  from Cons.prems have "score_of m te f \<noteq> None" by simp
  then obtain ae s where ae: "get_audio_embeddings m [f] = Inr ae"
    and s: "compute_similarity m ae te = Inr s"
    by (auto simp: score_of_def split: sum.splits)
  have sc: "score_of m te f = Some s" and cl: "calls_of m te f = [GetAudioEmbeddings [f], ComputeSimilarity ae te]"
    using ae s by (simp_all add: score_of_def calls_of_def)
  from Cons.prems have rest: "\<forall>f\<in>set files. score_of m te f \<noteq> None" by simp
  show ?case
    using Cons.IH[OF rest] ae s sc cl by (simp add: scored_def)
qed

lemma similarity_loop_first_failure:
  assumes "\<forall>g\<in>set before. score_of m te g \<noteq> None" and "score_of m te f = None"
  shows "\<exists>e. similarity_loop m te (before @ f # after) calls sims =
           (calls @ concat (map (calls_of m te) (before @ [f])), Inl e)"
  using assms
proof (induction before arbitrary: calls sims)
  case Nil
  then show ?case
    by (auto simp: score_of_def calls_of_def split: sum.splits)
next
  case (Cons g before)
  from Cons.prems have "score_of m te g \<noteq> None" by simp
  then obtain ae s where ae: "get_audio_embeddings m [g] = Inr ae"
    and s: "compute_similarity m ae te = Inr s"
    by (auto simp: score_of_def split: sum.splits)
  have cl: "calls_of m te g = [GetAudioEmbeddings [g], ComputeSimilarity ae te]"
    using ae by (simp add: calls_of_def)
  from Cons.prems have rest: "\<forall>g\<in>set before. score_of m te g \<noteq> None" by simp
  from Cons.IH[OF rest Cons.prems(2), of "calls @ [GetAudioEmbeddings [g], ComputeSimilarity ae te]" "sims @ [(g, s)]"]
  show ?case using ae s cl by simp
qed

lemma retrieve_audio_ok:
  assumes "new_CLAP = Inr m" and "listdir folder = Inr names"
    and "get_text_embeddings m [q] = Inr te"
    and "\<forall>f\<in>set (audio_files_of folder names). score_of m te f \<noteq> None"
  shows "retrieve_audio new_CLAP listdir q folder top_n =
           (GetTextEmbeddings [q] # concat (map (calls_of m te) (audio_files_of folder names)),
            Inr (map fst (py_slice (sort_reverse snd (scored m te (audio_files_of folder names))) 0 top_n)))"
  using assms by (simp add: retrieve_audio_def similarity_loop_ok)

lemma map_fst_scored: "map fst (scored m te files) = files"
  by (simp add: scored_def comp_def)

lemma snd_scored: "p \<in> set (scored m te files) \<Longrightarrow> snd p = the (score_of m te (fst p))"
  by (auto simp: scored_def)

lemma length_scored: "length (scored m te files) = length files"
  by (simp add: scored_def)

lemma calls_of_ok:
  assumes "score_of m te f \<noteq> None"
  shows "\<exists>ae. calls_of m te f = [GetAudioEmbeddings [f], ComputeSimilarity ae te]"
  using assms by (auto simp: score_of_def calls_of_def split: sum.splits)

lemma calls_of_counts:
  assumes "\<forall>f\<in>set files. score_of m te f \<noteq> None"
  shows "filter is_text_call (concat (map (calls_of m te) files)) = []"
    and "filter is_audio_call (concat (map (calls_of m te) files))
           = map (\<lambda>f. GetAudioEmbeddings [f]) files"
    and "length (filter is_similarity_call (concat (map (calls_of m te) files))) = length files"
    and "count_list (concat (map (calls_of m te) files)) (GetAudioEmbeddings [g])
           = count_list files g"
  using assms
proof (induction files)
  case Nil
  { case 1 show ?case by simp }
  { case 2 show ?case by simp }
  { case 3 show ?case by simp }
  { case 4 show ?case by simp }
next
  case (Cons f files)
  { case 1
    then obtain ae where "calls_of m te f = [GetAudioEmbeddings [f], ComputeSimilarity ae te]"
      using calls_of_ok[of m te f] by auto
    with 1 Cons.IH(1) show ?case by simp }
  { case 2
    then obtain ae where "calls_of m te f = [GetAudioEmbeddings [f], ComputeSimilarity ae te]"
      using calls_of_ok[of m te f] by auto
    with 2 Cons.IH(2) show ?case by simp }
  { case 3
    then obtain ae where "calls_of m te f = [GetAudioEmbeddings [f], ComputeSimilarity ae te]"
      using calls_of_ok[of m te f] by auto
    with 3 Cons.IH(3) show ?case by simp }
  { case 4
    then obtain ae where "calls_of m te f = [GetAudioEmbeddings [f], ComputeSimilarity ae te]"
      using calls_of_ok[of m te f] by auto
    with 4 Cons.IH(4) show ?case by simp }
qed

text \<open>
  Claim C5. In a call of \<^verbatim>\<open>retrieve_audio\<close> that returns (the model is constructed, the
  folder is listed and every model call returns), the model calls are, in order: one
  text embedding of the query, then for each candidate file in enumeration order one
  audio embedding followed by one similarity computation. So there is exactly one
  text-embedding call whatever the size of the corpus, one audio-embedding call per
  enumerated candidate and as many similarity calls as candidates, whatever
  \<^verbatim>\<open>top_n\<close> is.
\<close>

theorem retrieve_model_calls:
  assumes "new_CLAP = Inr m" and "listdir folder = Inr names"
    and "get_text_embeddings m [q] = Inr te"
    and "\<forall>f\<in>set (audio_files_of folder names). score_of m te f \<noteq> None"
  shows "\<exists>calls result.
           retrieve_audio new_CLAP listdir q folder top_n = (calls, Inr result) \<and>
           calls = GetTextEmbeddings [q]
                     # concat (map (calls_of m te) (audio_files_of folder names)) \<and>
           filter is_text_call calls = [GetTextEmbeddings [q]] \<and>
           filter is_audio_call calls
             = map (\<lambda>f. GetAudioEmbeddings [f]) (audio_files_of folder names) \<and>
           length (filter is_similarity_call calls) = length (audio_files_of folder names) \<and>
           (\<forall>g. count_list calls (GetAudioEmbeddings [g])
                  = count_list (audio_files_of folder names) g)"
proof -
  have "retrieve_audio new_CLAP listdir q folder top_n =
           (GetTextEmbeddings [q] # concat (map (calls_of m te) (audio_files_of folder names)),
            Inr (map fst (py_slice (sort_reverse snd (scored m te (audio_files_of folder names))) 0 top_n)))"
    using assms by (rule retrieve_audio_ok)
  then show ?thesis
    using calls_of_counts[OF assms(4)] by simp
qed

theorem retrieve_model_calls_witness:
  "\<exists>result. retrieve_audio (Inr stub_CLAP) stub_listdir ''a dog barks'' ''corpus'' 2
     = ([GetTextEmbeddings [''a dog barks''],
         GetAudioEmbeddings [''corpus/dog.wav''], ComputeSimilarity 14 11,
         GetAudioEmbeddings [''corpus/rain.wav''], ComputeSimilarity 15 11,
         GetAudioEmbeddings [''corpus/cat.wav''], ComputeSimilarity 14 11,
         GetAudioEmbeddings [''corpus/thunder.wav''], ComputeSimilarity 18 11], Inr result)"
proof -
  obtain calls result where
    r: "retrieve_audio (Inr stub_CLAP) stub_listdir ''a dog barks'' ''corpus'' 2
          = (calls, Inr result)"
    and c: "calls = GetTextEmbeddings [''a dog barks'']
              # concat (map (calls_of stub_CLAP 11) (audio_files_of ''corpus'' corpus_names))"
    using retrieve_model_calls [of "Inr stub_CLAP" stub_CLAP stub_listdir
        "''corpus''" corpus_names "''a dog barks''" 11 2] stub_env stub_all_scored
    by auto
  have "calls = [GetTextEmbeddings [''a dog barks''],
         GetAudioEmbeddings [''corpus/dog.wav''], ComputeSimilarity 14 11,
         GetAudioEmbeddings [''corpus/rain.wav''], ComputeSimilarity 15 11,
         GetAudioEmbeddings [''corpus/cat.wav''], ComputeSimilarity 14 11,
         GetAudioEmbeddings [''corpus/thunder.wav''], ComputeSimilarity 18 11]"
    unfolding c audio_files_corpus by (simp add: calls_of_def stub_CLAP_def)
  with r show ?thesis by blast
qed

lemma py_slice_from_zero_take: "\<exists>j. py_slice xs 0 n = take j xs"
  by (auto simp: py_slice_from_zero)

lemma top_scores_dominate:
  assumes "f \<in> set (map fst (take j (sort_reverse snd (scored m te files))))"
    and "g \<in> set files" and "g \<notin> set (map fst (take j (sort_reverse snd (scored m te files))))"
  shows "the (score_of m te g) \<le> the (score_of m te f)"
proof -
  let ?S = "sort_reverse snd (scored m te files)"
  have sub: "set ?S = set (scored m te files)" by (rule set_sort_reverse)
  from assms(1) obtain p where p: "p \<in> set (take j ?S)" and pf: "fst p = f" by auto
  have "(g, the (score_of m te g)) \<in> set (scored m te files)"
    using assms(2) by (auto simp: scored_def)
  then have "(g, the (score_of m te g)) \<in> set (take j ?S) \<union> set (drop j ?S)"
    using sub by (simp flip: set_append)
  moreover have "(g, the (score_of m te g)) \<notin> set (take j ?S)"
    using assms(3) by force
  ultimately have gd: "(g, the (score_of m te g)) \<in> set (drop j ?S)" by simp
  have "sorted_wrt (\<lambda>a b. snd b \<le> snd a) (take j ?S @ drop j ?S)"
    using sort_reverse_descending[of snd "scored m te files"] by simp
  then have "\<forall>a\<in>set (take j ?S). \<forall>b\<in>set (drop j ?S). snd b \<le> snd a"
    unfolding sorted_wrt_append by blast
  with p gd have "the (score_of m te g) \<le> snd p" by fastforce
  moreover have "p \<in> set (scored m te files)"
    using p sub by (auto dest: in_set_takeD)
  then have "snd p = the (score_of m te f)"
    using pf by (auto dest: snd_scored)
  ultimately show ?thesis by simp
qed

text \<open>
  Claim C2. With \<open>N\<close> candidate files whose model calls all return and
  \<open>0 < top_n < N\<close>, \<^verbatim>\<open>retrieve_audio\<close> returns exactly \<open>top_n\<close> files, and the score of
  every returned file is at least the score of every candidate that is not returned.
\<close>

theorem retrieve_top_n:
  assumes "new_CLAP = Inr m" and "listdir folder = Inr names"
    and "get_text_embeddings m [q] = Inr te"
    and "\<forall>f\<in>set (audio_files_of folder names). score_of m te f \<noteq> None"
    and "0 < top_n" and "top_n < int (length (audio_files_of folder names))"
  shows "\<exists>calls result.
           retrieve_audio new_CLAP listdir q folder top_n = (calls, Inr result) \<and>
           int (length result) = top_n \<and>
           (\<forall>f\<in>set result. \<forall>g\<in>set (audio_files_of folder names) - set result.
              the (score_of m te g) \<le> the (score_of m te f))"
proof -
  let ?files = "audio_files_of folder names"
  let ?S = "sort_reverse snd (scored m te ?files)"
  let ?result = "map fst (take (nat top_n) ?S)"
  have "retrieve_audio new_CLAP listdir q folder top_n =
           (GetTextEmbeddings [q] # concat (map (calls_of m te) ?files),
            Inr (map fst (py_slice ?S 0 top_n)))"
    using assms(1-4) by (rule retrieve_audio_ok)
  then have r: "retrieve_audio new_CLAP listdir q folder top_n =
           (GetTextEmbeddings [q] # concat (map (calls_of m te) ?files), Inr ?result)"
    using assms(5) by (simp add: py_slice_from_zero)
  have l: "int (length ?result) = top_n"
    using assms(5,6) by (simp add: length_sort_reverse length_scored)
  have d: "\<forall>f\<in>set ?result. \<forall>g\<in>set ?files - set ?result.
              the (score_of m te g) \<le> the (score_of m te f)"
    using top_scores_dominate[of _ "nat top_n" m te ?files] by blast
  from r l d show ?thesis by blast
qed

theorem retrieve_top_n_witness:
  "(0::int) < 2 \<and> 2 < int (length (audio_files_of ''corpus'' corpus_names)) \<and>
   (\<exists>calls. retrieve_audio (Inr stub_CLAP) stub_listdir ''a dog barks'' ''corpus'' 2
              = (calls, Inr [''corpus/dog.wav'', ''corpus/cat.wav''])) \<and>
   the (score_of stub_CLAP 11 ''corpus/thunder.wav'')
     \<le> the (score_of stub_CLAP 11 ''corpus/cat.wav'')"
proof -
  have n: "2 < int (length (audio_files_of ''corpus'' corpus_names))"
    by (simp add: audio_files_corpus)
  obtain calls result where
    r: "retrieve_audio (Inr stub_CLAP) stub_listdir ''a dog barks'' ''corpus'' 2
          = (calls, Inr result)"
    and d: "\<forall>f\<in>set result. \<forall>g\<in>set (audio_files_of ''corpus'' corpus_names) - set result.
              the (score_of stub_CLAP 11 g) \<le> the (score_of stub_CLAP 11 f)"
    using retrieve_top_n [of "Inr stub_CLAP" stub_CLAP stub_listdir "''corpus''" corpus_names
        "''a dog barks''" 11 2] stub_env stub_all_scored n
    by auto
  from r retrieve_stub_corpus have res: "result = [''corpus/dog.wav'', ''corpus/cat.wav'']"
    by simp
  from d have "the (score_of stub_CLAP 11 ''corpus/thunder.wav'')
     \<le> the (score_of stub_CLAP 11 ''corpus/cat.wav'')"
    unfolding res audio_files_corpus by simp
  with n r res show ?thesis by auto
qed

text \<open>
  Claim C3. With \<open>N\<close> candidate files whose model calls all return, the result of
  \<^verbatim>\<open>retrieve_audio\<close> has length \<open>min(top_n, N)\<close> for positive \<open>top_n\<close>; it is empty
  when there is no candidate, whatever \<open>top_n\<close> is; for \<open>top_n \<ge> N\<close> it holds
  exactly the \<open>N\<close> candidates, in descending order of score; and it never holds
  anything but candidates.
\<close>

theorem retrieve_length:
  assumes "new_CLAP = Inr m" and "listdir folder = Inr names"
    and "get_text_embeddings m [q] = Inr te"
    and "\<forall>f\<in>set (audio_files_of folder names). score_of m te f \<noteq> None"
  shows "\<exists>calls result.
           retrieve_audio new_CLAP listdir q folder top_n = (calls, Inr result) \<and>
           (0 < top_n \<longrightarrow>
              length result = min (nat top_n) (length (audio_files_of folder names))) \<and>
           (audio_files_of folder names = [] \<longrightarrow> result = []) \<and>
           (int (length (audio_files_of folder names)) \<le> top_n \<longrightarrow>
              mset result = mset (audio_files_of folder names) \<and>
              sorted_wrt (\<lambda>f g. the (score_of m te g) \<le> the (score_of m te f)) result) \<and>
           set result \<subseteq> set (audio_files_of folder names)"
proof -
  let ?files = "audio_files_of folder names"
  let ?S = "sort_reverse snd (scored m te ?files)"
  let ?result = "map fst (py_slice ?S 0 top_n)"
  have r: "retrieve_audio new_CLAP listdir q folder top_n =
           (GetTextEmbeddings [q] # concat (map (calls_of m te) ?files), Inr ?result)"
    using assms(1-4) by (rule retrieve_audio_ok)
  have len: "0 < top_n \<longrightarrow> length ?result = min (nat top_n) (length ?files)"
    by (simp add: py_slice_from_zero length_sort_reverse length_scored min.commute)
  have emp: "?files = [] \<longrightarrow> ?result = []"
    by (simp add: py_slice_from_zero sort_reverse_def scored_def)
  have fstS: "mset (map fst ?S) = mset ?files"
    using mset_sort_reverse[of snd "scored m te ?files"]
    by (metis map_fst_scored mset_map)
  have desc: "sorted_wrt (\<lambda>f g. the (score_of m te g) \<le> the (score_of m te f)) (map fst ?S)"
  proof -
    have "sorted_wrt (\<lambda>a b. snd b \<le> snd a) ?S" by (rule sort_reverse_descending)
    then have "sorted_wrt (\<lambda>a b. the (score_of m te (fst b)) \<le> the (score_of m te (fst a))) ?S"
      by (rule sorted_wrt_mono_rel[rotated]) (auto simp: set_sort_reverse dest!: snd_scored)
    then show ?thesis by (simp add: sorted_wrt_map)
  qed
  have full: "int (length ?files) \<le> top_n \<longrightarrow>
      mset ?result = mset ?files \<and>
      sorted_wrt (\<lambda>f g. the (score_of m te g) \<le> the (score_of m te f)) ?result"
  proof
    assume "int (length ?files) \<le> top_n"
    then have "py_slice ?S 0 top_n = ?S"
      by (simp add: py_slice_from_zero length_sort_reverse length_scored)
    with fstS desc show "mset ?result = mset ?files \<and>
      sorted_wrt (\<lambda>f g. the (score_of m te g) \<le> the (score_of m te f)) ?result" by simp
  qed
  have sub: "set ?result \<subseteq> set ?files"
  proof -
    obtain j where "py_slice ?S 0 top_n = take j ?S"
      using py_slice_from_zero_take by blast
    then have "set ?result \<subseteq> set (map fst ?S)"
      by (auto dest: in_set_takeD)
    also have "\<dots> = set ?files"
      using fstS by (rule mset_eq_setD)
    finally show ?thesis .
  qed
  from r len emp full sub show ?thesis by blast
qed

theorem retrieve_length_witness:
  "(\<exists>calls. retrieve_audio (Inr stub_CLAP) stub_listdir ''a dog barks'' ''corpus'' 10
              = (calls, Inr [''corpus/dog.wav'', ''corpus/cat.wav'', ''corpus/rain.wav'',
                             ''corpus/thunder.wav''])) \<and>
   length [''corpus/dog.wav'', ''corpus/cat.wav'', ''corpus/rain.wav'', ''corpus/thunder.wav'']
     = min (nat 10) (length (audio_files_of ''corpus'' corpus_names))"
proof -
  obtain calls result where
    r: "retrieve_audio (Inr stub_CLAP) stub_listdir ''a dog barks'' ''corpus'' 10
          = (calls, Inr result)"
    and l: "length result = min (nat 10) (length (audio_files_of ''corpus'' corpus_names))"
    using retrieve_length [of "Inr stub_CLAP" stub_CLAP stub_listdir "''corpus''" corpus_names
        "''a dog barks''" 11 10] stub_env stub_all_scored
    by auto
  from r retrieve_stub_corpus_all have
    "result = [''corpus/dog.wav'', ''corpus/cat.wav'', ''corpus/rain.wav'', ''corpus/thunder.wav'']"
    by simp
  with r l show ?thesis by auto
qed

text \<open>
  Claim C4. The descending sort is stable: for every score \<open>k\<close>, the returned files
  with score \<open>k\<close> are, in the order returned, an initial part of the candidates with
  score \<open>k\<close> in their enumeration order.
\<close>

theorem retrieve_ties_in_enumeration_order:
  assumes "new_CLAP = Inr m" and "listdir folder = Inr names"
    and "get_text_embeddings m [q] = Inr te"
    and "\<forall>f\<in>set (audio_files_of folder names). score_of m te f \<noteq> None"
  shows "\<exists>calls result.
           retrieve_audio new_CLAP listdir q folder top_n = (calls, Inr result) \<and>
           (\<forall>k. prefix (filter (\<lambda>f. score_of m te f = Some k) result)
                       (filter (\<lambda>f. score_of m te f = Some k) (audio_files_of folder names)))"
proof -
  let ?files = "audio_files_of folder names"
  let ?sims = "scored m te ?files"
  let ?S = "sort_reverse snd ?sims"
  let ?result = "map fst (py_slice ?S 0 top_n)"
  have r: "retrieve_audio new_CLAP listdir q folder top_n =
           (GetTextEmbeddings [q] # concat (map (calls_of m te) ?files), Inr ?result)"
    using assms(1-4) by (rule retrieve_audio_ok)
  obtain j where j: "py_slice ?S 0 top_n = take j ?S"
    using py_slice_from_zero_take by blast
  have "prefix (filter (\<lambda>f. score_of m te f = Some k) ?result)
               (filter (\<lambda>f. score_of m te f = Some k) ?files)" for k
  proof -
    have key: "(score_of m te (fst p) = Some k) = (snd p = k)" if "p \<in> set ?sims" for p
      using that assms(4) by (auto simp: scored_def)
    have "filter (\<lambda>f. score_of m te f = Some k) ?result
            = map fst (filter (\<lambda>p. score_of m te (fst p) = Some k) (take j ?S))"
      by (simp add: j filter_map comp_def)
    also have "\<dots> = map fst (filter (\<lambda>p. snd p = k) (take j ?S))"
      by (rule arg_cong[where f="map fst"], rule filter_cong[OF refl])
         (auto simp: set_sort_reverse dest!: in_set_takeD intro!: key)
    finally have a: "filter (\<lambda>f. score_of m te f = Some k) ?result
            = map fst (filter (\<lambda>p. snd p = k) (take j ?S))" .
    have "filter (\<lambda>f. score_of m te f = Some k) ?files
            = map fst (filter (\<lambda>p. score_of m te (fst p) = Some k) ?sims)"
      by (simp add: filter_map comp_def scored_def)
    also have "\<dots> = map fst (filter (\<lambda>p. snd p = k) ?sims)"
      by (rule arg_cong[where f="map fst"], rule filter_cong[OF refl]) (rule key)
    also have "\<dots> = map fst (filter (\<lambda>p. snd p = k) ?S)"
      by (simp add: sort_reverse_stable)
    finally have b: "filter (\<lambda>f. score_of m te f = Some k) ?files
            = map fst (filter (\<lambda>p. snd p = k) ?S)" .
    have "prefix (filter (\<lambda>p. snd p = k) (take j ?S)) (filter (\<lambda>p. snd p = k) ?S)"
      by (intro filter_mono_prefix take_is_prefix)
    then show ?thesis
      unfolding a b by (rule map_mono_prefix)
  qed
  with r show ?thesis by blast
qed

theorem retrieve_ties_in_enumeration_order_witness:
  "(\<exists>calls. retrieve_audio (Inr stub_CLAP) stub_listdir ''a dog barks'' ''corpus'' 2
              = (calls, Inr [''corpus/dog.wav'', ''corpus/cat.wav''])) \<and>
   prefix (filter (\<lambda>f. score_of stub_CLAP 11 f = Some (- 3))
             [''corpus/dog.wav'', ''corpus/cat.wav''])
          (filter (\<lambda>f. score_of stub_CLAP 11 f = Some (- 3))
             (audio_files_of ''corpus'' corpus_names))"
proof -
  obtain calls result where
    r: "retrieve_audio (Inr stub_CLAP) stub_listdir ''a dog barks'' ''corpus'' 2
          = (calls, Inr result)"
    and t: "\<forall>k. prefix (filter (\<lambda>f. score_of stub_CLAP 11 f = Some k) result)
                 (filter (\<lambda>f. score_of stub_CLAP 11 f = Some k)
                    (audio_files_of ''corpus'' corpus_names))"
    using retrieve_ties_in_enumeration_order [of "Inr stub_CLAP" stub_CLAP stub_listdir
        "''corpus''" corpus_names "''a dog barks''" 11 2] stub_env stub_all_scored
    by auto
  from r retrieve_stub_corpus have "result = [''corpus/dog.wav'', ''corpus/cat.wav'']"
    by simp
  with r t show ?thesis by blast
qed

lemma comprehension_some_failure:
  assumes "\<exists>x\<in>set xs. \<exists>e. f x = Inl e"
  shows "\<exists>e. comprehension f xs = Inl e"
proof -
  from assms obtain before x after where
    xs: "xs = before @ x # after" and x: "\<exists>e. f x = Inl e"
    and b: "\<forall>y\<in>set before. \<not> (\<exists>e. f y = Inl e)"
    using split_list_first_prop[of xs "\<lambda>x. \<exists>e. f x = Inl e"] by blast
  from b have "\<forall>y\<in>set before. \<exists>b. f y = Inr b"
    by (metis sum.exhaust)
  with x xs show ?thesis
    using comprehension_first_failure[of before f x _ after] by blast
qed

lemma similarity_loop_some_failure:
  assumes "\<exists>f\<in>set files. score_of m te f = None"
  shows "\<exists>calls' err. similarity_loop m te files calls sims = (calls', Inl err)"
proof -
  from assms obtain before f after where
    xs: "files = before @ f # after" and x: "score_of m te f = None"
    and b: "\<forall>y\<in>set before. score_of m te y \<noteq> None"
    using split_list_first_prop[of files "\<lambda>f. score_of m te f = None"] by blast
  show ?thesis
    using similarity_loop_first_failure[OF b x, of after calls sims] xs by blast
qed

text \<open>
  Claim C8. A batch stops at its first failing input and produces nothing. For
  \<^verbatim>\<open>mix\<close>: when any input fails to load, the call raises and the file system is
  unchanged, so no output file is written; when the inputs before \<open>p\<close> load and
  \<open>p\<close> does not, the exception is the one of \<open>p\<close> (through the handlers) whatever
  comes after \<open>p\<close> and whatever the volume. For \<^verbatim>\<open>retrieve_audio\<close>: when a model
  call for any candidate raises, the call raises and returns no ranking; when the
  candidates before \<open>f\<close> are scored and a model call for \<open>f\<close> raises, no model call
  has been made for any candidate after \<open>f\<close>.
\<close>

theorem batch_failure_aborts:
  "((\<exists>p\<in>set audio_paths. \<exists>e. from_file fs p = Inl e)
      \<longrightarrow> (\<exists>e. mix ops fs audio_paths output_path volume = (Inl e, fs))) \<and>
   (audio_paths = before @ p # after \<and>
    (\<forall>q\<in>set before. \<exists>a. from_file fs q = Inr a) \<and> from_file fs p = Inl e
      \<longrightarrow> mix ops fs audio_paths output_path volume = (Inl (handlers e), fs)) \<and>
   (new_CLAP = Inr m \<and> listdir folder = Inr names \<and>
    get_text_embeddings m [q] = Inr te \<and>
    (\<exists>f\<in>set (audio_files_of folder names). score_of m te f = None)
      \<longrightarrow> (\<exists>calls err. retrieve_audio new_CLAP listdir q folder top_n = (calls, Inl err))) \<and>
   (new_CLAP = Inr m \<and> listdir folder = Inr names \<and>
    get_text_embeddings m [q] = Inr te \<and>
    audio_files_of folder names = scored_files @ f # later_files \<and>
    (\<forall>g\<in>set scored_files. score_of m te g \<noteq> None) \<and> score_of m te f = None
      \<longrightarrow> (\<exists>err. retrieve_audio new_CLAP listdir q folder top_n =
                  (GetTextEmbeddings [q]
                     # concat (map (calls_of m te) (scored_files @ [f])), Inl err)))"
proof (intro conjI impI)
  assume "\<exists>p\<in>set audio_paths. \<exists>e. from_file fs p = Inl e"
  then have "\<exists>e. comprehension (from_file fs) audio_paths = Inl e"
    by (rule comprehension_some_failure)
  then obtain e where "comprehension (from_file fs) audio_paths = Inl e" ..
  then have "mix ops fs audio_paths output_path volume = (Inl (handlers e), fs)"
    by (simp add: mix_def mix_try_def)
  then show "\<exists>e. mix ops fs audio_paths output_path volume = (Inl e, fs)" ..
next
  assume h: "audio_paths = before @ p # after \<and>
    (\<forall>q\<in>set before. \<exists>a. from_file fs q = Inr a) \<and> from_file fs p = Inl e"
  then have "comprehension (from_file fs) audio_paths = Inl e"
    by (simp add: comprehension_first_failure)
  then show "mix ops fs audio_paths output_path volume = (Inl (handlers e), fs)"
    by (simp add: mix_def mix_try_def)
next
  assume h: "new_CLAP = Inr m \<and> listdir folder = Inr names \<and>
    get_text_embeddings m [q] = Inr te \<and>
    (\<exists>f\<in>set (audio_files_of folder names). score_of m te f = None)"
  then have env: "new_CLAP = Inr m" "listdir folder = Inr names"
    "get_text_embeddings m [q] = Inr te"
    and bad: "\<exists>f\<in>set (audio_files_of folder names). score_of m te f = None"
    by simp_all
  from bad have "\<exists>calls err.
      similarity_loop m te (audio_files_of folder names) [GetTextEmbeddings [q]] [] = (calls, Inl err)"
    by (rule similarity_loop_some_failure)
  then obtain calls err where
    "similarity_loop m te (audio_files_of folder names) [GetTextEmbeddings [q]] [] = (calls, Inl err)"
    by blast
  then have "retrieve_audio new_CLAP listdir q folder top_n = (calls, Inl err)"
    using env by (simp add: retrieve_audio_def)
  then show "\<exists>calls err. retrieve_audio new_CLAP listdir q folder top_n = (calls, Inl err)"
    by blast
next
  assume h: "new_CLAP = Inr m \<and> listdir folder = Inr names \<and>
    get_text_embeddings m [q] = Inr te \<and>
    audio_files_of folder names = scored_files @ f # later_files \<and>
    (\<forall>g\<in>set scored_files. score_of m te g \<noteq> None) \<and> score_of m te f = None"
  then have env: "new_CLAP = Inr m" "listdir folder = Inr names"
    "get_text_embeddings m [q] = Inr te"
    "audio_files_of folder names = scored_files @ f # later_files"
    and ok: "\<forall>g\<in>set scored_files. score_of m te g \<noteq> None"
    and bad: "score_of m te f = None"
    by simp_all
  from ok bad have "\<exists>err.
    similarity_loop m te (scored_files @ f # later_files) [GetTextEmbeddings [q]] [] =
       ([GetTextEmbeddings [q]] @ concat (map (calls_of m te) (scored_files @ [f])), Inl err)"
    by (rule similarity_loop_first_failure)
  then obtain err where
    "similarity_loop m te (scored_files @ f # later_files) [GetTextEmbeddings [q]] [] =
       ([GetTextEmbeddings [q]] @ concat (map (calls_of m te) (scored_files @ [f])), Inl err)" ..
  then have "retrieve_audio new_CLAP listdir q folder top_n =
                  (GetTextEmbeddings [q]
                     # concat (map (calls_of m te) (scored_files @ [f])), Inl err)"
    using env by (simp add: retrieve_audio_def)
  then show "\<exists>err. retrieve_audio new_CLAP listdir q folder top_n =
                  (GetTextEmbeddings [q]
                     # concat (map (calls_of m te) (scored_files @ [f])), Inl err)" ..
qed

theorem batch_failure_aborts_witness:
  "mix no_conversion fs0 [''a.wav'', ''missing.wav'', ''b.wav''] ''out.wav'' 1 = (Inl FileNotFoundError, fs0) \<and>
   (\<exists>err. retrieve_audio (Inr stub_CLAP) stub_listdir ''a dog barks'' ''broken'' 5 =
      ([GetTextEmbeddings [''a dog barks''],
        GetAudioEmbeddings [''broken/dog.wav''], ComputeSimilarity 14 11,
        GetAudioEmbeddings [''broken/bad.wav'']], Inl err))"
proof -
  have fs: "from_file fs0 ''a.wav'' = Inr (mono_clip 1000 [[1], [2], [3]])"
    "from_file fs0 ''missing.wav'' = Inl FileNotFoundError"
    by (simp_all add: from_file_def fs0_def)
  note t = batch_failure_aborts [of "[''a.wav'', ''missing.wav'', ''b.wav'']" fs0 no_conversion "''out.wav''" 1
      "[''a.wav'']" "''missing.wav''" "[''b.wav'']" FileNotFoundError
      "Inr stub_CLAP" stub_CLAP stub_listdir "''broken''" "[''dog.wav'', ''bad.wav'', ''rain.wav'']"
      "''a dog barks''" 11 5 "[''broken/dog.wav'']" "''broken/bad.wav''" "[''broken/rain.wav'']"]
  from t fs have a: "mix no_conversion fs0 [''a.wav'', ''missing.wav'', ''b.wav''] ''out.wav'' 1
      = (Inl FileNotFoundError, fs0)"
    by (simp add: handlers_def)
  from t obtain err where
    "retrieve_audio (Inr stub_CLAP) stub_listdir ''a dog barks'' ''broken'' 5 =
       (GetTextEmbeddings [''a dog barks'']
          # concat (map (calls_of stub_CLAP 11) ([''broken/dog.wav''] @ [''broken/bad.wav''])), Inl err)"
    using stub_env audio_files_corpus(3) score_of_stub by auto
  then have "retrieve_audio (Inr stub_CLAP) stub_listdir ''a dog barks'' ''broken'' 5 =
      ([GetTextEmbeddings [''a dog barks''],
        GetAudioEmbeddings [''broken/dog.wav''], ComputeSimilarity 14 11,
        GetAudioEmbeddings [''broken/bad.wav'']], Inl err)"
    by (simp add: calls_of_def stub_CLAP_def)
  with a show ?thesis by blast
qed

end
